theory Spec2Isabelle
  imports Main
begin

section \<open>The C types the two headers name\<close>

text \<open>
  The right-hand sides of the typedefs in \<^verbatim>\<open>asm/types.h\<close> and
  \<^verbatim>\<open>asm/posix_types.h\<close>: the eight exact-width types of
  \<^verbatim>\<open><stdint.h>\<close> and the two built-in types
  \<^verbatim>\<open>unsigned long\<close> and \<^verbatim>\<open>long\<close>.
\<close>

datatype ctype =
    uint8_t | int8_t
  | uint16_t | int16_t
  | uint32_t | int32_t
  | uint64_t | int64_t
  | unsigned_long
  | long

text \<open>
  The exact-width types have their width fixed by the C standard (7.20.1.1: exactly N
  bits, no padding, two's complement when signed); the width of \<^verbatim>\<open>long\<close> is the
  host's choice.
\<close>

fun exact_bits :: "ctype \<Rightarrow> nat option" where
  "exact_bits uint8_t = Some 8"
| "exact_bits int8_t = Some 8"
| "exact_bits uint16_t = Some 16"
| "exact_bits int16_t = Some 16"
| "exact_bits uint32_t = Some 32"
| "exact_bits int32_t = Some 32"
| "exact_bits uint64_t = Some 64"
| "exact_bits int64_t = Some 64"
| "exact_bits unsigned_long = None"
| "exact_bits long = None"

fun is_signed :: "ctype \<Rightarrow> bool" where
  "is_signed uint8_t = False"
| "is_signed int8_t = True"
| "is_signed uint16_t = False"
| "is_signed int16_t = True"
| "is_signed uint32_t = False"
| "is_signed int32_t = True"
| "is_signed uint64_t = False"
| "is_signed int64_t = True"
| "is_signed unsigned_long = False"
| "is_signed long = True"

text \<open>The host's data model decides the width of \<^verbatim>\<open>long\<close> and of pointers.\<close>

datatype data_model = ILP32 | LLP64 | LP64

fun long_bits :: "data_model \<Rightarrow> nat" where
  "long_bits ILP32 = 32"
| "long_bits LLP64 = 32"
| "long_bits LP64 = 64"

fun pointer_bits :: "data_model \<Rightarrow> nat" where
  "pointer_bits ILP32 = 32"
| "pointer_bits LLP64 = 64"
| "pointer_bits LP64 = 64"

definition bits :: "data_model \<Rightarrow> ctype \<Rightarrow> nat" where
  "bits dm t = (case exact_bits t of Some n \<Rightarrow> n | None \<Rightarrow> long_bits dm)"

text \<open>Which header has to be visible before a type name can be used.\<close>

definition needs_header :: "ctype \<Rightarrow> string option" where
  "needs_header t = (case exact_bits t of Some _ \<Rightarrow> Some ''stdint.h'' | None \<Rightarrow> None)"

section \<open>Header text\<close>

text \<open>
  A header is a list of items, one per directive or declaration. \<open>Define m\<close> is an
  object-like macro with an empty replacement list, as both guards are; \<open>Include\<close>
  names a system header.
\<close>

datatype item =
    Ifndef string
  | Define string
  | Undef string
  | Endif
  | Include string
  | Typedef ctype string
  | Object ctype string
  | Function string

text \<open>\<^verbatim>\<open>src/headers/asm/posix_types.h\<close>, lines 11 to 33.\<close>

definition posix_types_h :: "item list" where
  "posix_types_h =
    [ Ifndef ''_ASM_POSIX_TYPES_H'',
      Define ''_ASM_POSIX_TYPES_H'',
      Include ''stdint.h'',
      Typedef uint64_t ''__kernel_dev_t'',
      Typedef uint64_t ''__kernel_ino_t'',
      Typedef uint32_t ''__kernel_mode_t'',
      Typedef uint32_t ''__kernel_nlink_t'',
      Typedef uint32_t ''__kernel_uid_t'',
      Typedef uint32_t ''__kernel_gid_t'',
      Typedef int64_t ''__kernel_off_t'',
      Typedef int32_t ''__kernel_pid_t'',
      Typedef int32_t ''__kernel_daddr_t'',
      Endif ]"

text \<open>\<^verbatim>\<open>src/headers/asm/types.h\<close>, lines 9 to 26.\<close>

definition types_h :: "item list" where
  "types_h =
    [ Ifndef ''_ASM_TYPES_H'',
      Define ''_ASM_TYPES_H'',
      Include ''stdint.h'',
      Typedef uint8_t ''__u8'',
      Typedef int8_t ''__s8'',
      Typedef uint16_t ''__u16'',
      Typedef int16_t ''__s16'',
      Typedef uint32_t ''__u32'',
      Typedef int32_t ''__s32'',
      Typedef uint64_t ''__u64'',
      Typedef int64_t ''__s64'',
      Typedef unsigned_long ''__kernel_ulong_t'',
      Typedef long ''__kernel_long_t'',
      Endif ]"

section \<open>Translation units\<close>

text \<open>
  What the compiler front end knows while it reads a translation unit: the macros
  defined so far, the system headers seen, the typedef names with their types in
  declaration order, the other ordinary identifiers (objects and functions), and the
  diagnostics issued.
\<close>

datatype error =
    Redefinition string
  | UnknownType ctype
  | MacroCollision string
  | EndifWithoutIf
  | UnterminatedConditional

record tu =
  macros :: "string list"
  sys_headers :: "string list"
  typedefs :: "(string \<times> ctype) list"
  others :: "string list"
  errors :: "error list"

definition empty_tu :: tu where
  "empty_tu = \<lparr> macros = [], sys_headers = [], typedefs = [], others = [], errors = [] \<rparr>"

definition add_error :: "error \<Rightarrow> tu \<Rightarrow> tu" where
  "add_error e s = s\<lparr> errors := errors s @ [e] \<rparr>"

definition declared :: "tu \<Rightarrow> string \<Rightarrow> bool" where
  "declared s n = (n \<in> set (map fst (typedefs s)) \<or> n \<in> set (others s))"

text \<open>
  A declaration of the ordinary identifier \<open>n\<close>. A name that is a defined macro is
  replaced by the empty replacement list before the compiler sees it, and a name that
  is already declared is a redefinition (C99 6.7p3: a typedef name is declared once
  per scope).
\<close>

definition check_name :: "string \<Rightarrow> tu \<Rightarrow> error option" where
  "check_name n s =
    (if n \<in> set (macros s) then Some (MacroCollision n)
     else if declared s n then Some (Redefinition n)
     else None)"

definition check_type :: "ctype \<Rightarrow> tu \<Rightarrow> error option" where
  "check_type t s =
    (case needs_header t of
       None \<Rightarrow> None
     | Some h \<Rightarrow> if h \<in> set (sys_headers s) then None else Some (UnknownType t))"

fun declare_item :: "item \<Rightarrow> tu \<Rightarrow> tu" where
  "declare_item (Define m) s = s\<lparr> macros := List.insert m (macros s) \<rparr>"
| "declare_item (Undef m) s = s\<lparr> macros := removeAll m (macros s) \<rparr>"
| "declare_item (Include h) s = s\<lparr> sys_headers := List.insert h (sys_headers s) \<rparr>"
| "declare_item (Typedef t n) s =
    (case check_type t s of
       Some e \<Rightarrow> add_error e s
     | None \<Rightarrow>
        (case check_name n s of
           Some e \<Rightarrow> add_error e s
         | None \<Rightarrow> s\<lparr> typedefs := typedefs s @ [(n, t)] \<rparr>))"
| "declare_item (Object t n) s =
    (case check_type t s of
       Some e \<Rightarrow> add_error e s
     | None \<Rightarrow>
        (case check_name n s of
           Some e \<Rightarrow> add_error e s
         | None \<Rightarrow> s\<lparr> others := others s @ [n] \<rparr>))"
| "declare_item (Function n) s =
    (case check_name n s of
       Some e \<Rightarrow> add_error e s
     | None \<Rightarrow> s\<lparr> others := others s @ [n] \<rparr>)"
| "declare_item (Ifndef m) s = s"
| "declare_item Endif s = s"

text \<open>
  The conditional stack: one flag per open \<^verbatim>\<open>#ifndef\<close>, true when the group
  is being read. A group inside a skipped group is skipped.
\<close>

fun active :: "bool list \<Rightarrow> bool" where
  "active [] = True"
| "active (b # stk) = b"

fun process :: "item list \<Rightarrow> bool list \<Rightarrow> tu \<Rightarrow> tu" where
  "process [] stk s = (if stk = [] then s else add_error UnterminatedConditional s)"
| "process (Ifndef m # rest) stk s =
     process rest ((active stk \<and> m \<notin> set (macros s)) # stk) s"
| "process (Endif # rest) [] s = process rest [] (add_error EndifWithoutIf s)"
| "process (Endif # rest) (b # stk) s = process rest stk s"
| "process (i # rest) stk s =
     process rest stk (if active stk then declare_item i s else s)"

text \<open>Including a header reads its items with a conditional stack of its own.\<close>

definition include_header :: "item list \<Rightarrow> tu \<Rightarrow> tu" where
  "include_header h s = process h [] s"

fun include_all :: "item list list \<Rightarrow> tu \<Rightarrow> tu" where
  "include_all [] s = s"
| "include_all (h # hs) s = include_all hs (include_header h s)"

text \<open>What a name resolves to, and how that type is represented on a host.\<close>

definition resolve :: "tu \<Rightarrow> string \<Rightarrow> ctype option" where
  "resolve s n = map_of (typedefs s) n"

definition repr :: "data_model \<Rightarrow> ctype \<Rightarrow> nat \<times> bool" where
  "repr dm t = (bits dm t, is_signed t)"

definition alias_repr :: "data_model \<Rightarrow> tu \<Rightarrow> string \<Rightarrow> (nat \<times> bool) option" where
  "alias_repr dm s n = map_option (repr dm) (resolve s n)"

text \<open>
  The aliases of a translation unit by kind: those of an exact width \<open>n\<close>, and
  those whose width is the host's.
\<close>

definition fixed_width_aliases :: "tu \<Rightarrow> nat \<Rightarrow> (string \<times> ctype) list" where
  "fixed_width_aliases s n = filter (\<lambda>(a, t). exact_bits t = Some n) (typedefs s)"

definition platform_width_aliases :: "tu \<Rightarrow> (string \<times> ctype) list" where
  "platform_width_aliases s = filter (\<lambda>(a, t). exact_bits t = None) (typedefs s)"

definition describe :: "data_model \<Rightarrow> string \<times> ctype \<Rightarrow> string \<times> nat \<times> bool" where
  "describe dm = (\<lambda>(a, t). (a, bits dm t, is_signed t))"

text \<open>Every identifier a translation unit has got: macros, typedef names, the rest.\<close>

definition exported :: "tu \<Rightarrow> string list" where
  "exported s = macros s @ map fst (typedefs s) @ others s"

text \<open>The macro a header tests first.\<close>

fun guard_of :: "item list \<Rightarrow> string option" where
  "guard_of (Ifndef m # rest) = Some m"
| "guard_of _ = None"

text \<open>An item that neither opens nor closes a conditional, and removes no macro.\<close>

fun plain :: "item \<Rightarrow> bool" where
  "plain (Ifndef m) = False"
| "plain Endif = False"
| "plain (Undef m) = False"
| "plain _ = True"

text \<open>
  An item a header may hold when it exports nothing but typedefs of the names \<open>ns\<close>
  behind the guard \<open>g\<close>: the guard's three directives, the inclusion of
  \<^verbatim>\<open><stdint.h>\<close>, and a typedef of one of the names.
\<close>

fun item_allowed :: "string \<Rightarrow> string list \<Rightarrow> item \<Rightarrow> bool" where
  "item_allowed g ns (Ifndef m) = (m = g)"
| "item_allowed g ns (Define m) = (m = g)"
| "item_allowed g ns Endif = True"
| "item_allowed g ns (Include h) = (h = ''stdint.h'')"
| "item_allowed g ns (Typedef t n) = (n \<in> set ns)"
| "item_allowed g ns (Undef m) = False"
| "item_allowed g ns (Object t n) = False"
| "item_allowed g ns (Function n) = False"

section \<open>The documented interface\<close>

text \<open>
  The aliases as the specification lists them, each with its width in bits and whether
  it is signed. Header A: device and inode number 64-bit unsigned; file mode, link
  count, user id and group id 32-bit unsigned; file offset 64-bit signed; process id
  and block device address 32-bit signed.
\<close>

definition documented_posix_aliases :: "(string \<times> nat \<times> bool) list" where
  "documented_posix_aliases =
    [ (''__kernel_dev_t'', 64, False), (''__kernel_ino_t'', 64, False),
      (''__kernel_mode_t'', 32, False), (''__kernel_nlink_t'', 32, False),
      (''__kernel_uid_t'', 32, False), (''__kernel_gid_t'', 32, False),
      (''__kernel_off_t'', 64, True), (''__kernel_pid_t'', 32, True),
      (''__kernel_daddr_t'', 32, True) ]"

text \<open>
  Header B: two names for each of the widths 8, 16, 32 and 64, one unsigned and one
  signed, and the two names of the host's \<^verbatim>\<open>long\<close>.
\<close>

definition documented_fixed_aliases :: "nat \<Rightarrow> (string \<times> nat \<times> bool) list" where
  "documented_fixed_aliases n =
    (if n = 8 then [(''__u8'', 8, False), (''__s8'', 8, True)]
     else if n = 16 then [(''__u16'', 16, False), (''__s16'', 16, True)]
     else if n = 32 then [(''__u32'', 32, False), (''__s32'', 32, True)]
     else if n = 64 then [(''__u64'', 64, False), (''__s64'', 64, True)]
     else [])"

definition documented_posix_names :: "string list" where
  "documented_posix_names = map fst documented_posix_aliases"

definition documented_types_names :: "string list" where
  "documented_types_names =
    map fst (concat (map documented_fixed_aliases [8, 16, 32, 64]))
      @ [''__kernel_ulong_t'', ''__kernel_long_t'']"

definition documented_names :: "string list" where
  "documented_names = documented_posix_names @ documented_types_names"

section \<open>The two headers, included alone\<close>

lemma posix_types_h_alone:
  "include_header posix_types_h empty_tu =
    \<lparr> macros = [''_ASM_POSIX_TYPES_H''],
      sys_headers = [''stdint.h''],
      typedefs =
        [ (''__kernel_dev_t'', uint64_t), (''__kernel_ino_t'', uint64_t),
          (''__kernel_mode_t'', uint32_t), (''__kernel_nlink_t'', uint32_t),
          (''__kernel_uid_t'', uint32_t), (''__kernel_gid_t'', uint32_t),
          (''__kernel_off_t'', int64_t), (''__kernel_pid_t'', int32_t),
          (''__kernel_daddr_t'', int32_t) ],
      others = [],
      errors = [] \<rparr>"
  by (simp add: include_header_def posix_types_h_def empty_tu_def check_type_def
      check_name_def declared_def needs_header_def add_error_def)

lemma types_h_alone:
  "include_header types_h empty_tu =
    \<lparr> macros = [''_ASM_TYPES_H''],
      sys_headers = [''stdint.h''],
      typedefs =
        [ (''__u8'', uint8_t), (''__s8'', int8_t),
          (''__u16'', uint16_t), (''__s16'', int16_t),
          (''__u32'', uint32_t), (''__s32'', int32_t),
          (''__u64'', uint64_t), (''__s64'', int64_t),
          (''__kernel_ulong_t'', unsigned_long), (''__kernel_long_t'', long) ],
      others = [],
      errors = [] \<rparr>"
  by (simp add: include_header_def types_h_def empty_tu_def check_type_def
      check_name_def declared_def needs_header_def add_error_def)


section \<open>Widths and signedness of the aliases\<close>

text \<open>
  C1. For each width N of 8, 16, 32 and 64, the aliases of \<^verbatim>\<open>asm/types.h\<close>
  that resolve to an exact-width type of N bits are exactly the documented two, in
  every data model: \<^verbatim>\<open>__uN\<close> of N bits and unsigned, \<^verbatim>\<open>__sN\<close> of
  N bits and signed. The header is read without a diagnostic.
\<close>

theorem types_h_fixed_width_aliases:
  "map (describe dm) (fixed_width_aliases (include_header types_h empty_tu) 8)
     = documented_fixed_aliases 8
   \<and> map (describe dm) (fixed_width_aliases (include_header types_h empty_tu) 16)
     = documented_fixed_aliases 16
   \<and> map (describe dm) (fixed_width_aliases (include_header types_h empty_tu) 32)
     = documented_fixed_aliases 32
   \<and> map (describe dm) (fixed_width_aliases (include_header types_h empty_tu) 64)
     = documented_fixed_aliases 64
   \<and> documented_fixed_aliases 8 = [(''__u8'', 8, False), (''__s8'', 8, True)]
   \<and> documented_fixed_aliases 16 = [(''__u16'', 16, False), (''__s16'', 16, True)]
   \<and> documented_fixed_aliases 32 = [(''__u32'', 32, False), (''__s32'', 32, True)]
   \<and> documented_fixed_aliases 64 = [(''__u64'', 64, False), (''__s64'', 64, True)]
   \<and> errors (include_header types_h empty_tu) = []"
  by (simp add: types_h_alone fixed_width_aliases_def describe_def bits_def
      documented_fixed_aliases_def)

text \<open>
  C2. In \<^verbatim>\<open>asm/posix_types.h\<close>, \<^verbatim>\<open>__kernel_dev_t\<close> and
  \<^verbatim>\<open>__kernel_ino_t\<close> each resolve to a type of exactly 64 bits, unsigned, in
  every data model.
\<close>

theorem posix_dev_ino_64_unsigned:
  "alias_repr dm (include_header posix_types_h empty_tu) ''__kernel_dev_t'' = Some (64, False)
   \<and> alias_repr dm (include_header posix_types_h empty_tu) ''__kernel_ino_t'' = Some (64, False)
   \<and> map_option exact_bits (resolve (include_header posix_types_h empty_tu) ''__kernel_dev_t'')
       = Some (Some 64)
   \<and> map_option exact_bits (resolve (include_header posix_types_h empty_tu) ''__kernel_ino_t'')
       = Some (Some 64)"
  by (simp add: posix_types_h_alone alias_repr_def resolve_def repr_def bits_def)

text \<open>
  C3. In \<^verbatim>\<open>asm/posix_types.h\<close>, \<^verbatim>\<open>__kernel_mode_t\<close>,
  \<^verbatim>\<open>__kernel_nlink_t\<close>, \<^verbatim>\<open>__kernel_uid_t\<close> and
  \<^verbatim>\<open>__kernel_gid_t\<close> each resolve to a type of exactly 32 bits, unsigned, in
  every data model.
\<close>

theorem posix_mode_nlink_uid_gid_32_unsigned:
  "map (alias_repr dm (include_header posix_types_h empty_tu))
      [''__kernel_mode_t'', ''__kernel_nlink_t'', ''__kernel_uid_t'', ''__kernel_gid_t'']
     = [Some (32, False), Some (32, False), Some (32, False), Some (32, False)]
   \<and> map (map_option exact_bits \<circ> resolve (include_header posix_types_h empty_tu))
      [''__kernel_mode_t'', ''__kernel_nlink_t'', ''__kernel_uid_t'', ''__kernel_gid_t'']
     = [Some (Some 32), Some (Some 32), Some (Some 32), Some (Some 32)]"
  by (simp add: posix_types_h_alone alias_repr_def resolve_def repr_def bits_def)

text \<open>
  C4. In \<^verbatim>\<open>asm/posix_types.h\<close>, \<^verbatim>\<open>__kernel_off_t\<close> resolves to a
  type of exactly 64 bits, signed, and \<^verbatim>\<open>__kernel_pid_t\<close> and
  \<^verbatim>\<open>__kernel_daddr_t\<close> each to a type of exactly 32 bits, signed, in every data
  model.
\<close>

theorem posix_off_pid_daddr_signed:
  "map (alias_repr dm (include_header posix_types_h empty_tu))
      [''__kernel_off_t'', ''__kernel_pid_t'', ''__kernel_daddr_t'']
     = [Some (64, True), Some (32, True), Some (32, True)]
   \<and> map (map_option exact_bits \<circ> resolve (include_header posix_types_h empty_tu))
      [''__kernel_off_t'', ''__kernel_pid_t'', ''__kernel_daddr_t'']
     = [Some (Some 64), Some (Some 32), Some (Some 32)]"
  by (simp add: posix_types_h_alone alias_repr_def resolve_def repr_def bits_def)

text \<open>
  C5. The aliases of \<^verbatim>\<open>asm/types.h\<close> whose width is the host's are exactly
  two: \<^verbatim>\<open>__kernel_ulong_t\<close> for \<^verbatim>\<open>unsigned long\<close>, which is unsigned,
  and \<^verbatim>\<open>__kernel_long_t\<close> for \<^verbatim>\<open>long\<close>, which is signed. On an LP64
  host both are 64 bits wide, the width of a pointer there.
\<close>

theorem types_h_platform_width_aliases:
  "platform_width_aliases (include_header types_h empty_tu)
     = [(''__kernel_ulong_t'', unsigned_long), (''__kernel_long_t'', long)]
   \<and> \<not> is_signed unsigned_long \<and> is_signed long
   \<and> bits LP64 unsigned_long = 64 \<and> bits LP64 long = 64
   \<and> pointer_bits LP64 = 64"
  by (simp add: types_h_alone platform_width_aliases_def bits_def)

section \<open>Reading a guarded header\<close>

text \<open>
  A header of the shape \<^verbatim>\<open>#ifndef G, #define G, body, #endif\<close> whose body has
  no conditional and no \<^verbatim>\<open>#undef\<close>: it is skipped whole once \<open>G\<close> is
  defined, and it defines \<open>G\<close> when it is read. Both headers have that shape.
\<close>

lemma process_skipped:
  "list_all plain body \<Longrightarrow>
     process (body @ rest) (False # stk) s = process rest (False # stk) s"
proof (induction body)
  case Nil
  then show ?case by simp
next
  case (Cons i body)
  then show ?case by (cases i) simp_all
qed

lemma process_plain:
  "list_all plain body \<Longrightarrow>
     process (body @ rest) (True # stk) s = process rest (True # stk) (fold declare_item body s)"
proof (induction body arbitrary: s)
  case Nil
  then show ?case by simp
next
  case (Cons i body)
  then show ?case by (cases i) simp_all
qed

lemma declare_item_keeps_macro:
  "plain i \<Longrightarrow> g \<in> set (macros s) \<Longrightarrow> g \<in> set (macros (declare_item i s))"
  by (cases i) (simp_all add: add_error_def split: option.splits)

lemma fold_declare_keeps_macro:
  "list_all plain body \<Longrightarrow> g \<in> set (macros s) \<Longrightarrow>
     g \<in> set (macros (fold declare_item body s))"
  by (induction body arbitrary: s) (simp_all add: declare_item_keeps_macro)

lemma guarded_skip:
  assumes "list_all plain body" and "g \<in> set (macros s)"
  shows "include_header (Ifndef g # Define g # body @ [Endif]) s = s"
proof -
  have "include_header (Ifndef g # Define g # body @ [Endif]) s
      = process ((Define g # body) @ [Endif]) [False] s"
    using assms(2) by (simp add: include_header_def)
  also have "\<dots> = process [Endif] [False] s"
    using assms(1) by (intro process_skipped) simp
  finally show ?thesis by simp
qed

lemma guarded_defines:
  assumes "list_all plain body"
  shows "g \<in> set (macros (include_header (Ifndef g # Define g # body @ [Endif]) s))"
proof (cases "g \<in> set (macros s)")
  case True
  then show ?thesis using assms by (simp add: guarded_skip)
next
  case False
  then have "include_header (Ifndef g # Define g # body @ [Endif]) s
      = process ((Define g # body) @ [Endif]) [True] s"
    by (simp add: include_header_def)
  also have "\<dots> = process [Endif] [True] (fold declare_item (Define g # body) s)"
    using assms by (intro process_plain) simp
  finally have "include_header (Ifndef g # Define g # body @ [Endif]) s
      = fold declare_item body (declare_item (Define g) s)"
    by simp
  then show ?thesis using assms by (simp add: fold_declare_keeps_macro)
qed

lemma guarded_idem:
  assumes "list_all plain body"
  shows "include_header (Ifndef g # Define g # body @ [Endif])
           (include_header (Ifndef g # Define g # body @ [Endif]) s)
         = include_header (Ifndef g # Define g # body @ [Endif]) s"
  using assms by (intro guarded_skip guarded_defines)

lemma posix_types_h_guarded:
  "posix_types_h = Ifndef ''_ASM_POSIX_TYPES_H'' # Define ''_ASM_POSIX_TYPES_H''
      # butlast (drop 2 posix_types_h) @ [Endif]
   \<and> list_all plain (butlast (drop 2 posix_types_h))"
  by (simp add: posix_types_h_def)

lemma types_h_guarded:
  "types_h = Ifndef ''_ASM_TYPES_H'' # Define ''_ASM_TYPES_H''
      # butlast (drop 2 types_h) @ [Endif]
   \<and> list_all plain (butlast (drop 2 types_h))"
  by (simp add: types_h_def)

lemma posix_types_h_idem:
  "include_header posix_types_h (include_header posix_types_h s) = include_header posix_types_h s"
  using posix_types_h_guarded guarded_idem by metis

lemma types_h_idem:
  "include_header types_h (include_header types_h s) = include_header types_h s"
  using types_h_guarded guarded_idem by metis

lemma posix_types_h_skip:
  "''_ASM_POSIX_TYPES_H'' \<in> set (macros s) \<Longrightarrow> include_header posix_types_h s = s"
  using posix_types_h_guarded guarded_skip by metis

lemma types_h_skip:
  "''_ASM_TYPES_H'' \<in> set (macros s) \<Longrightarrow> include_header types_h s = s"
  using types_h_guarded guarded_skip by metis

lemma include_all_replicate:
  assumes "\<And>s. include_header h (include_header h s) = include_header h s"
  shows "include_all (replicate (Suc n) h) s = include_header h s"
proof (induction n arbitrary: s)
  case 0
  then show ?case by simp
next
  case (Suc n)
  have "include_all (replicate (Suc (Suc n)) h) s
      = include_all (replicate (Suc n) h) (include_header h s)"
    by simp
  then show ?case using Suc assms by simp
qed

text \<open>The two headers included one after the other, in either order.\<close>

lemma types_after_posix:
  "include_header types_h (include_header posix_types_h empty_tu) =
    \<lparr> macros = [''_ASM_TYPES_H'', ''_ASM_POSIX_TYPES_H''],
      sys_headers = [''stdint.h''],
      typedefs = typedefs (include_header posix_types_h empty_tu)
        @ typedefs (include_header types_h empty_tu),
      others = [],
      errors = [] \<rparr>"
  by (simp add: posix_types_h_alone types_h_alone)
   (simp add: include_header_def types_h_def check_type_def
      check_name_def declared_def needs_header_def add_error_def)

lemma posix_after_types:
  "include_header posix_types_h (include_header types_h empty_tu) =
    \<lparr> macros = [''_ASM_POSIX_TYPES_H'', ''_ASM_TYPES_H''],
      sys_headers = [''stdint.h''],
      typedefs = typedefs (include_header types_h empty_tu)
        @ typedefs (include_header posix_types_h empty_tu),
      others = [],
      errors = [] \<rparr>"
  by (simp add: posix_types_h_alone types_h_alone)
   (simp add: include_header_def posix_types_h_def check_type_def
      check_name_def declared_def needs_header_def add_error_def)

section \<open>Inclusion guards\<close>

text \<open>
  C6. Including either header once more, any number of times, gives the translation
  unit a single inclusion gives, whatever the unit held before; from the empty unit no
  diagnostic is issued, so no name is redefined.
\<close>

theorem inclusion_idempotent:
  "include_all (replicate (Suc n) posix_types_h) s = include_header posix_types_h s
   \<and> include_all (replicate (Suc n) types_h) s = include_header types_h s
   \<and> errors (include_all (replicate (Suc n) posix_types_h) empty_tu) = []
   \<and> errors (include_all (replicate (Suc n) types_h) empty_tu) = []"
  by (simp only: include_all_replicate [of posix_types_h, OF posix_types_h_idem]
      include_all_replicate [of types_h, OF types_h_idem])
    (simp add: posix_types_h_alone types_h_alone)

text \<open>
  C7. The identifiers the two headers define (guard macros and typedef names) are
  disjoint, and the two headers included together, in either order, are read without
  a diagnostic and declare the aliases of both.
\<close>

theorem headers_disjoint:
  "set (exported (include_header posix_types_h empty_tu))
      \<inter> set (exported (include_header types_h empty_tu)) = {}
   \<and> errors (include_all [posix_types_h, types_h] empty_tu) = []
   \<and> errors (include_all [types_h, posix_types_h] empty_tu) = []
   \<and> typedefs (include_all [posix_types_h, types_h] empty_tu)
       = typedefs (include_header posix_types_h empty_tu)
           @ typedefs (include_header types_h empty_tu)
   \<and> typedefs (include_all [types_h, posix_types_h] empty_tu)
       = typedefs (include_header types_h empty_tu)
           @ typedefs (include_header posix_types_h empty_tu)"
  by (simp add: types_after_posix posix_after_types)
    (simp add: posix_types_h_alone types_h_alone exported_def)

text \<open>
  C8. Every item of either header is one of the guard's directives, the inclusion of
  \<^verbatim>\<open><stdint.h>\<close>, or a typedef of a documented name; a header alone defines
  one macro, its guard, declares no object and no function, and its typedef names are
  the documented ones.
\<close>

theorem headers_export_only_documented:
  "list_all (item_allowed ''_ASM_POSIX_TYPES_H'' documented_posix_names) posix_types_h
   \<and> list_all (item_allowed ''_ASM_TYPES_H'' documented_types_names) types_h
   \<and> macros (include_header posix_types_h empty_tu) = [''_ASM_POSIX_TYPES_H'']
   \<and> macros (include_header types_h empty_tu) = [''_ASM_TYPES_H'']
   \<and> others (include_header posix_types_h empty_tu) = []
   \<and> others (include_header types_h empty_tu) = []
   \<and> map fst (typedefs (include_header posix_types_h empty_tu)) = documented_posix_names
   \<and> map fst (typedefs (include_header types_h empty_tu)) = documented_types_names"
  by (simp add: posix_types_h_alone types_h_alone)
    (simp add: documented_posix_names_def
      documented_types_names_def documented_posix_aliases_def documented_fixed_aliases_def
      posix_types_h_def types_h_def)

text \<open>
  Any sequence of inclusions of the two headers, from the empty translation unit, ends
  in one of five units; a macro once defined stays defined.
\<close>

lemma guarded_keeps_macro:
  assumes "list_all plain body" and "m \<in> set (macros s)"
  shows "m \<in> set (macros (include_header (Ifndef g # Define g # body @ [Endif]) s))"
proof (cases "g \<in> set (macros s)")
  case True
  then show ?thesis using assms by (simp add: guarded_skip)
next
  case False
  then have "include_header (Ifndef g # Define g # body @ [Endif]) s
      = process ((Define g # body) @ [Endif]) [True] s"
    by (simp add: include_header_def)
  also have "\<dots> = process [Endif] [True] (fold declare_item (Define g # body) s)"
    using assms(1) by (intro process_plain) simp
  finally have "include_header (Ifndef g # Define g # body @ [Endif]) s
      = fold declare_item body (declare_item (Define g) s)"
    by simp
  then show ?thesis using assms by (simp add: fold_declare_keeps_macro)
qed

lemma header_keeps_macro:
  assumes "h \<in> {posix_types_h, types_h}" and "m \<in> set (macros s)"
  shows "m \<in> set (macros (include_header h s))"
proof -
  from assms(1) obtain g body where "h = Ifndef g # Define g # body @ [Endif]"
      and "list_all plain body"
    using posix_types_h_guarded types_h_guarded by blast
  then show ?thesis using assms(2) by (simp add: guarded_keeps_macro)
qed

lemma header_defines_guard:
  assumes "h \<in> {posix_types_h, types_h}"
  shows "the (guard_of h) \<in> set (macros (include_header h s))"
proof -
  from assms obtain g body where h: "h = Ifndef g # Define g # body @ [Endif]"
      and "list_all plain body"
    using posix_types_h_guarded types_h_guarded by blast
  then have "g \<in> set (macros (include_header h s))"
    by (simp add: guarded_defines)
  then show ?thesis using h by simp
qed

lemma include_all_keeps_macro:
  "set hs \<subseteq> {posix_types_h, types_h} \<Longrightarrow> m \<in> set (macros s) \<Longrightarrow>
     m \<in> set (macros (include_all hs s))"
proof (induction hs arbitrary: s)
  case Nil
  then show ?case by simp
next
  case (Cons h hs)
  then have "m \<in> set (macros (include_header h s))"
    by (intro header_keeps_macro) simp_all
  with Cons show ?case by simp
qed

lemma include_all_defines_guard:
  "set hs \<subseteq> {posix_types_h, types_h} \<Longrightarrow> h \<in> set hs \<Longrightarrow>
     the (guard_of h) \<in> set (macros (include_all hs s))"
proof (induction hs arbitrary: s)
  case Nil
  then show ?case by simp
next
  case (Cons h' hs)
  show ?case
  proof (cases "h = h'")
    case True
    from Cons.prems have "h' \<in> {posix_types_h, types_h}"
      by simp
    then have "the (guard_of h') \<in> set (macros (include_header h' s))"
      by (rule header_defines_guard)
    with Cons.prems True show ?thesis
      by (simp add: include_all_keeps_macro)
  next
    case False
    with Cons show ?thesis by simp
  qed
qed

lemma reach_step:
  assumes "h \<in> {posix_types_h, types_h}"
    and "s \<in> {empty_tu, include_header posix_types_h empty_tu, include_header types_h empty_tu,
      include_header types_h (include_header posix_types_h empty_tu),
      include_header posix_types_h (include_header types_h empty_tu)}"
  shows "include_header h s \<in> {empty_tu, include_header posix_types_h empty_tu,
      include_header types_h empty_tu,
      include_header types_h (include_header posix_types_h empty_tu),
      include_header posix_types_h (include_header types_h empty_tu)}"
proof -
  have a: "include_header posix_types_h (include_header types_h (include_header posix_types_h empty_tu))
      = include_header types_h (include_header posix_types_h empty_tu)"
    by (rule posix_types_h_skip) (simp add: types_after_posix)
  have b: "include_header types_h (include_header posix_types_h (include_header types_h empty_tu))
      = include_header posix_types_h (include_header types_h empty_tu)"
    by (rule types_h_skip) (simp add: posix_after_types)
  from assms show ?thesis
    using a b posix_types_h_idem types_h_idem by (elim insertE emptyE) simp_all
qed

lemma reach_all:
  "set hs \<subseteq> {posix_types_h, types_h} \<Longrightarrow>
   s \<in> {empty_tu, include_header posix_types_h empty_tu, include_header types_h empty_tu,
      include_header types_h (include_header posix_types_h empty_tu),
      include_header posix_types_h (include_header types_h empty_tu)} \<Longrightarrow>
   include_all hs s \<in> {empty_tu, include_header posix_types_h empty_tu,
      include_header types_h empty_tu,
      include_header types_h (include_header posix_types_h empty_tu),
      include_header posix_types_h (include_header types_h empty_tu)}"
proof (induction hs arbitrary: s)
  case Nil
  then show ?case by simp
next
  case (Cons h hs)
  from Cons.prems have "include_header h s \<in> {empty_tu, include_header posix_types_h empty_tu,
      include_header types_h empty_tu,
      include_header types_h (include_header posix_types_h empty_tu),
      include_header posix_types_h (include_header types_h empty_tu)}"
    by (intro reach_step) simp_all
  with Cons show ?case by simp
qed

lemma documented_names_value:
  "documented_names =
    [''__kernel_dev_t'', ''__kernel_ino_t'', ''__kernel_mode_t'', ''__kernel_nlink_t'',
     ''__kernel_uid_t'', ''__kernel_gid_t'', ''__kernel_off_t'', ''__kernel_pid_t'',
     ''__kernel_daddr_t'', ''__u8'', ''__s8'', ''__u16'', ''__s16'', ''__u32'', ''__s32'',
     ''__u64'', ''__s64'', ''__kernel_ulong_t'', ''__kernel_long_t'']"
  by (simp add: documented_names_def documented_posix_names_def
      documented_types_names_def documented_posix_aliases_def documented_fixed_aliases_def)

lemma macros_empty_tu: "macros empty_tu = []"
  by (simp add: empty_tu_def)

lemma both_included_cases:
  assumes "s \<in> {empty_tu, include_header posix_types_h empty_tu, include_header types_h empty_tu,
      include_header types_h (include_header posix_types_h empty_tu),
      include_header posix_types_h (include_header types_h empty_tu)}"
    and "''_ASM_POSIX_TYPES_H'' \<in> set (macros s)"
    and "''_ASM_TYPES_H'' \<in> set (macros s)"
  shows "s = include_header types_h (include_header posix_types_h empty_tu)
       \<or> s = include_header posix_types_h (include_header types_h empty_tu)"
  using assms
  by (elim insertE emptyE) (simp_all add: posix_types_h_alone types_h_alone macros_empty_tu)

lemma both_included_names:
  assumes "s = include_header types_h (include_header posix_types_h empty_tu)
       \<or> s = include_header posix_types_h (include_header types_h empty_tu)"
  shows "set documented_names \<subseteq> set (map fst (typedefs s)) \<and> errors s = []"
proof -
  have ab: "set documented_names \<subseteq> set (map fst (typedefs
        (include_header types_h (include_header posix_types_h empty_tu))))
      \<and> errors (include_header types_h (include_header posix_types_h empty_tu)) = []"
    unfolding types_after_posix
    by (simp add: posix_types_h_alone types_h_alone documented_names_value)
  have ba: "set documented_names \<subseteq> set (map fst (typedefs
        (include_header posix_types_h (include_header types_h empty_tu))))
      \<and> errors (include_header posix_types_h (include_header types_h empty_tu)) = []"
    unfolding posix_after_types
    by (simp add: posix_types_h_alone types_h_alone documented_names_value)
  from assms ab ba show ?thesis by blast
qed

text \<open>
  C9. The two guards differ, \<^verbatim>\<open>_ASM_POSIX_TYPES_H\<close> and
  \<^verbatim>\<open>_ASM_TYPES_H\<close>, and after any sequence of inclusions in which both
  headers occur, in any order and any number of times, all nineteen documented names
  are typedef names of the translation unit, and no diagnostic was issued.
\<close>

theorem interleaved_inclusions_define_all:
  assumes "set hs = {posix_types_h, types_h}"
  shows "guard_of posix_types_h = Some ''_ASM_POSIX_TYPES_H''
    \<and> guard_of types_h = Some ''_ASM_TYPES_H''
    \<and> guard_of posix_types_h \<noteq> guard_of types_h
    \<and> length documented_names = 19 \<and> distinct documented_names
    \<and> set documented_names \<subseteq> set (map fst (typedefs (include_all hs empty_tu)))
    \<and> errors (include_all hs empty_tu) = []"
proof -
  have g: "guard_of posix_types_h = Some ''_ASM_POSIX_TYPES_H''"
    "guard_of types_h = Some ''_ASM_TYPES_H''"
    by (simp_all add: posix_types_h_def types_h_def)
  have sub: "set hs \<subseteq> {posix_types_h, types_h}"
    using assms by simp
  have r: "include_all hs empty_tu \<in> {empty_tu, include_header posix_types_h empty_tu,
      include_header types_h empty_tu,
      include_header types_h (include_header posix_types_h empty_tu),
      include_header posix_types_h (include_header types_h empty_tu)}"
    using sub by (rule reach_all) simp
  have "the (guard_of posix_types_h) \<in> set (macros (include_all hs empty_tu))"
    using sub assms by (intro include_all_defines_guard) simp_all
  then have ma: "''_ASM_POSIX_TYPES_H'' \<in> set (macros (include_all hs empty_tu))"
    using g by simp
  have "the (guard_of types_h) \<in> set (macros (include_all hs empty_tu))"
    using sub assms by (intro include_all_defines_guard) simp_all
  then have mb: "''_ASM_TYPES_H'' \<in> set (macros (include_all hs empty_tu))"
    using g by simp
  have n: "set documented_names \<subseteq> set (map fst (typedefs (include_all hs empty_tu)))
      \<and> errors (include_all hs empty_tu) = []"
    using r ma mb by (intro both_included_names both_included_cases)
  have d: "length documented_names = 19 \<and> distinct documented_names"
    by (simp add: documented_names_value)
  show ?thesis using g n d by simp
qed

theorem interleaved_inclusions_define_all_witness:
  "set [posix_types_h, types_h, posix_types_h, types_h, types_h] = {posix_types_h, types_h}
   \<and> set documented_names \<subseteq> set (map fst (typedefs
        (include_all [posix_types_h, types_h, posix_types_h, types_h, types_h] empty_tu)))
   \<and> errors (include_all [posix_types_h, types_h, posix_types_h, types_h, types_h] empty_tu) = []"
proof -
  have h: "set [posix_types_h, types_h, posix_types_h, types_h, types_h] = {posix_types_h, types_h}"
    by auto
  from interleaved_inclusions_define_all [OF h] h show ?thesis by blast
qed

section \<open>Exact-width targets of the POSIX aliases\<close>

lemma posix_resolve_exact:
  assumes "resolve (include_header posix_types_h empty_tu) a = Some t"
  shows "t \<in> {uint32_t, uint64_t, int32_t, int64_t}"
proof -
  from assms have "(a, t) \<in> set (typedefs (include_header posix_types_h empty_tu))"
    unfolding resolve_def by (rule map_of_SomeD)
  then show ?thesis
    by (auto simp add: posix_types_h_alone)
qed

lemma exact_repr_inj:
  assumes "t1 \<in> {uint32_t, uint64_t, int32_t, int64_t}"
    and "t2 \<in> {uint32_t, uint64_t, int32_t, int64_t}"
    and "repr dm t1 = repr dm t2"
  shows "t1 = t2"
  using assms by (auto simp add: repr_def bits_def)

lemma exact_repr_host_free:
  assumes "t \<in> {uint32_t, uint64_t, int32_t, int64_t}"
  shows "repr dm' t = repr dm t"
  using assms by (auto simp add: repr_def bits_def)

text \<open>
  C10. Every alias of \<^verbatim>\<open>asm/posix_types.h\<close> resolves to one of
  \<^verbatim>\<open>uint32_t\<close>, \<^verbatim>\<open>uint64_t\<close>, \<^verbatim>\<open>int32_t\<close> and
  \<^verbatim>\<open>int64_t\<close>, never to a type whose width is the host's. So two of its
  aliases with the same width and signedness in one data model resolve to the same
  type, and have that width and signedness in every other data model.
\<close>

theorem posix_aliases_exact_width:
  "list_all (\<lambda>(a, t). t \<in> set [uint32_t, uint64_t, int32_t, int64_t] \<and> exact_bits t \<noteq> None)
      (typedefs (include_header posix_types_h empty_tu))
   \<and> (alias_repr dm (include_header posix_types_h empty_tu) a1 = Some r \<longrightarrow>
      alias_repr dm (include_header posix_types_h empty_tu) a2 = Some r \<longrightarrow>
        resolve (include_header posix_types_h empty_tu) a1
          = resolve (include_header posix_types_h empty_tu) a2
        \<and> alias_repr dm' (include_header posix_types_h empty_tu) a1 = Some r
        \<and> alias_repr dm' (include_header posix_types_h empty_tu) a2 = Some r)"
proof (intro conjI impI)
  show "list_all (\<lambda>(a, t). t \<in> set [uint32_t, uint64_t, int32_t, int64_t] \<and> exact_bits t \<noteq> None)
      (typedefs (include_header posix_types_h empty_tu))"
    by (simp add: posix_types_h_alone)
next
  assume r1: "alias_repr dm (include_header posix_types_h empty_tu) a1 = Some r"
    and r2: "alias_repr dm (include_header posix_types_h empty_tu) a2 = Some r"
  from r1 obtain t1 where t1: "resolve (include_header posix_types_h empty_tu) a1 = Some t1"
    and q1: "repr dm t1 = r"
    by (auto simp add: alias_repr_def)
  from r2 obtain t2 where t2: "resolve (include_header posix_types_h empty_tu) a2 = Some t2"
    and q2: "repr dm t2 = r"
    by (auto simp add: alias_repr_def)
  have e1: "t1 \<in> {uint32_t, uint64_t, int32_t, int64_t}"
    using t1 by (rule posix_resolve_exact)
  have e2: "t2 \<in> {uint32_t, uint64_t, int32_t, int64_t}"
    using t2 by (rule posix_resolve_exact)
  have "t1 = t2"
    using e1 e2 q1 q2 by (intro exact_repr_inj [of t1 t2 dm]) simp_all
  then show "resolve (include_header posix_types_h empty_tu) a1
      = resolve (include_header posix_types_h empty_tu) a2"
    using t1 t2 by simp
  show "alias_repr dm' (include_header posix_types_h empty_tu) a1 = Some r"
    using t1 q1 exact_repr_host_free [OF e1, of dm' dm] by (simp add: alias_repr_def)
  show "alias_repr dm' (include_header posix_types_h empty_tu) a2 = Some r"
    using t2 q2 exact_repr_host_free [OF e2, of dm' dm] by (simp add: alias_repr_def)
qed

theorem posix_aliases_exact_width_witness:
  "alias_repr ILP32 (include_header posix_types_h empty_tu) ''__kernel_uid_t'' = Some (32, False)
   \<and> alias_repr ILP32 (include_header posix_types_h empty_tu) ''__kernel_gid_t'' = Some (32, False)
   \<and> resolve (include_header posix_types_h empty_tu) ''__kernel_uid_t''
       = resolve (include_header posix_types_h empty_tu) ''__kernel_gid_t''
   \<and> alias_repr LP64 (include_header posix_types_h empty_tu) ''__kernel_uid_t'' = Some (32, False)
   \<and> alias_repr LP64 (include_header posix_types_h empty_tu) ''__kernel_gid_t'' = Some (32, False)"
proof -
  have h1: "alias_repr ILP32 (include_header posix_types_h empty_tu) ''__kernel_uid_t''
      = Some (32, False)"
    by (simp add: posix_types_h_alone alias_repr_def resolve_def repr_def bits_def)
  have h2: "alias_repr ILP32 (include_header posix_types_h empty_tu) ''__kernel_gid_t''
      = Some (32, False)"
    by (simp add: posix_types_h_alone alias_repr_def resolve_def repr_def bits_def)
  from posix_aliases_exact_width [of ILP32 "''__kernel_uid_t''" "(32, False)" "''__kernel_gid_t''" LP64]
    h1 h2 show ?thesis by blast
qed

end
